theory Spec2Isabelle
  imports Main "HOL-Library.Word" "HOL-Library.Signed_Division"
begin

section \<open>The playback controller of src/native/vlc\_player.cpp\<close>

text \<open>
  The class \<open>VlcPlayer\<close> drives libVLC, an external C library. The class is embedded as a
  record of its fields and one function per method, taking the state and returning the
  result with the updated state. The engine is not part of the repository: what it
  answers to each call is an argument of the method that makes the call, and every call
  the method makes is appended to the ghost field \<open>calls\<close>, in the order of the source.

  A call made inside a \<open>try\<close> block may end in a fault, which the \<open>catch (...)\<close> of the
  source handles; its answer has the type \<open>'a reply\<close>. A call made outside every
  \<open>try\<close> block has a plain answer: libVLC is a C interface, and the source has no branch
  for a fault there.

  Integers (\<open>int\<close>, \<open>int64_t\<close>) are modelled as \<open>int\<close>: the source only copies and
  compares them. A \<open>float\<close> is only copied, and is modelled by its 32 bits, \<open>0.0f\<close> being
  the word 0. A time point of \<open>steady_clock\<close> is its tick count.
\<close>

subsection \<open>Handles, engine states, replies\<close>

text \<open>A non-null pointer is its address; a pointer that may be null is an \<open>option\<close>.\<close>

type_synonym libvlc_instance_t = nat
type_synonym libvlc_media_player_t = nat
type_synonym libvlc_media_t = nat

text \<open>The window handle is only stored and passed on; \<open>nullptr\<close> is 0.\<close>

type_synonym HWND = nat

type_synonym time_point = int

text \<open>
  Modelled from the spec: the engine's state enumeration \<open>libvlc_state_t\<close> is declared in
  vlc/vlc.h, which is not under src/. Section 6 of the spec lists
  \<open>{Playing, Paused, Stopped, Buffering, Error, Ended, ...}\<close>; these are the six states the
  source names, and \<open>libvlc_NothingSpecial\<close> and \<open>libvlc_Opening\<close> stand for the rest.
\<close>

datatype libvlc_state_t =
    libvlc_NothingSpecial
  | libvlc_Opening
  | libvlc_Buffering
  | libvlc_Playing
  | libvlc_Paused
  | libvlc_Stopped
  | libvlc_Ended
  | libvlc_Error

datatype 'a reply = Reply 'a | Fault

text \<open>The calls the class makes to the engine (and the one call to \<open>Sleep\<close>).\<close>

datatype libvlc_call =
    Libvlc_new "string list"
  | Libvlc_release libvlc_instance_t
  | Media_player_new libvlc_instance_t
  | Media_player_release libvlc_media_player_t
  | Media_player_set_hwnd libvlc_media_player_t HWND
  | Media_player_is_playing libvlc_media_player_t
  | Media_player_stop libvlc_media_player_t
  | Sleep nat
  | Media_new_location "libvlc_instance_t option" string
  | Media_player_set_media libvlc_media_player_t libvlc_media_t
  | Media_release libvlc_media_t
  | Media_player_play libvlc_media_player_t
  | Media_player_pause libvlc_media_player_t
  | Audio_set_volume libvlc_media_player_t int
  | Audio_get_volume libvlc_media_player_t
  | Media_player_get_state libvlc_media_player_t
  | Media_player_get_media libvlc_media_player_t
  | Media_get_state libvlc_media_t
  | Media_player_get_time libvlc_media_player_t
  | Media_get_stats libvlc_media_t
  | Media_add_option libvlc_media_t string

subsection \<open>The fields of the class\<close>

record StreamStats =
  inputBitrate :: "32 word"
  demuxBitrate :: "32 word"
  lostBuffers :: int
  displayedPictures :: int
  lostPictures :: int

definition StreamStats_default :: StreamStats where
  "StreamStats_default =
     \<lparr>inputBitrate = 0, demuxBitrate = 0, lostBuffers = 0,
      displayedPictures = 0, lostPictures = 0\<rparr>"

record VlcPlayer =
  vlcInstance :: "libvlc_instance_t option"
  mediaPlayer :: "libvlc_media_player_t option"
  hwnd :: HWND
  initialized :: bool
  lastFrameTime :: time_point
  freezeDetectionEnabled :: bool
  lastFrameCount :: int
  currentUrl :: string
  isInErrorState :: bool
  lastStats :: StreamStats
  isRecording :: bool
  recordingPath :: string
  audioOnlyMode :: bool
  calls :: "libvlc_call list"

text \<open>The constructor: the member initialisers, then \<open>lastFrameTime = now()\<close>.\<close>

definition VlcPlayer_new :: "time_point \<Rightarrow> VlcPlayer" where
  "VlcPlayer_new now =
     \<lparr>vlcInstance = None, mediaPlayer = None, hwnd = 0, initialized = False,
      lastFrameTime = now, freezeDetectionEnabled = False, lastFrameCount = 0,
      currentUrl = [], isInErrorState = False, lastStats = StreamStats_default,
      isRecording = False, recordingPath = [], audioOnlyMode = False, calls = []\<rparr>"

definition libvlc :: "libvlc_call \<Rightarrow> VlcPlayer \<Rightarrow> VlcPlayer" where
  "libvlc c s = s\<lparr>calls := calls s @ [c]\<rparr>"

subsection \<open>The body of a try block\<close>

text \<open>
  A \<open>try\<close> body is a function from the state to a reply and the state: \<open>Fault\<close> is control
  passing to the \<open>catch\<close>, with the fields as they were when the fault occurred.
\<close>

type_synonym 'a attempt = "VlcPlayer \<Rightarrow> 'a reply \<times> VlcPlayer"

definition call :: "libvlc_call \<Rightarrow> 'a reply \<Rightarrow> 'a attempt" where
  "call c r s = (r, libvlc c s)"

definition result :: "'a \<Rightarrow> 'a attempt" where
  "result a s = (Reply a, s)"

definition assign :: "(VlcPlayer \<Rightarrow> VlcPlayer) \<Rightarrow> unit attempt" where
  "assign f s = (Reply (), f s)"

definition and_then :: "'a attempt \<Rightarrow> ('a \<Rightarrow> 'b attempt) \<Rightarrow> 'b attempt" where
  "and_then m k s = (case m s of (Fault, s') \<Rightarrow> (Fault, s') | (Reply a, s') \<Rightarrow> k a s')"

subsection \<open>Session handle and recovery\<close>

definition vlc_args :: "string list" where
  "vlc_args =
     [''--no-video-title-show'', ''--no-xlib'', ''--no-snapshot-preview'', ''--quiet'',
      ''--network-caching=3000'', ''--clock-jitter=0'', ''--clock-synchro=0'']"

text \<open>
  \<open>recreateMediaPlayer\<close>; \<open>new_player\<close> is what \<open>libvlc_media_player_new\<close> returns.
\<close>

definition recreateMediaPlayer ::
  "libvlc_media_player_t option \<Rightarrow> VlcPlayer \<Rightarrow> bool \<times> VlcPlayer" where
  "recreateMediaPlayer new_player s =
     (case vlcInstance s of
        None \<Rightarrow> (False, s)
      | Some inst \<Rightarrow>
          let s1 = (case mediaPlayer s of
                      Some mp \<Rightarrow> (libvlc (Media_player_release mp) s)\<lparr>mediaPlayer := None\<rparr>
                    | None \<Rightarrow> s);
              s2 = (libvlc (Media_player_new inst) s1)\<lparr>mediaPlayer := new_player\<rparr>
          in (case mediaPlayer s2 of
                None \<Rightarrow> (False, s2)
              | Some mp \<Rightarrow>
                  (True, (libvlc (Media_player_set_hwnd mp (hwnd s2)) s2)
                           \<lparr>isInErrorState := False\<rparr>)))"

text \<open>
  \<open>initialize\<close>; \<open>new_instance\<close> is what \<open>libvlc_new\<close> returns and \<open>new_player\<close> what
  \<open>libvlc_media_player_new\<close> returns.
\<close>

definition initialize ::
  "HWND \<Rightarrow> libvlc_instance_t option \<Rightarrow> libvlc_media_player_t option \<Rightarrow> VlcPlayer
     \<Rightarrow> bool \<times> VlcPlayer" where
  "initialize windowHandle new_instance new_player s =
     (if initialized s then (True, s)
      else
        let s1 = s\<lparr>hwnd := windowHandle\<rparr>;
            s2 = (libvlc (Libvlc_new vlc_args) s1)\<lparr>vlcInstance := new_instance\<rparr>
        in (case vlcInstance s2 of
              None \<Rightarrow> (False, s2)
            | Some inst \<Rightarrow>
                let s3 = (libvlc (Media_player_new inst) s2)\<lparr>mediaPlayer := new_player\<rparr>
                in (case mediaPlayer s3 of
                      None \<Rightarrow> (False, (libvlc (Libvlc_release inst) s3)\<lparr>vlcInstance := None\<rparr>)
                    | Some mp \<Rightarrow>
                        (True, (libvlc (Media_player_set_hwnd mp (hwnd s3)) s3)
                                 \<lparr>initialized := True\<rparr>))))"

text \<open>\<open>cleanup\<close>, which the destructor calls.\<close>

definition cleanup :: "VlcPlayer \<Rightarrow> VlcPlayer" where
  "cleanup s =
     (let s1 = (case mediaPlayer s of
                  Some mp \<Rightarrow>
                    (libvlc (Media_player_release mp) (libvlc (Media_player_stop mp) s))
                      \<lparr>mediaPlayer := None\<rparr>
                | None \<Rightarrow> s);
          s2 = (case vlcInstance s1 of
                  Some inst \<Rightarrow> (libvlc (Libvlc_release inst) s1)\<lparr>vlcInstance := None\<rparr>
                | None \<Rightarrow> s1)
      in s2\<lparr>initialized := False\<rparr>)"

text \<open>
  The guard \<open>!initialized || !mediaPlayer\<close> with which the playback methods start: the
  player handle when the guard lets the method pass.
\<close>

definition live_player :: "VlcPlayer \<Rightarrow> libvlc_media_player_t option" where
  "live_player s = (if \<not> initialized s then None else mediaPlayer s)"

subsection \<open>Playback\<close>

text \<open>What the engine answers to the calls of \<open>play\<close>, in the order of the calls.\<close>

record play_replies =
  play_is_playing :: "int reply"
  play_stop :: "unit reply"
  play_media_new_location :: "libvlc_media_t option reply"
  play_set_media :: "unit reply"
  play_media_release :: "unit reply"
  play_play :: "int reply"

text \<open>The \<open>try\<close> body of \<open>play\<close>; \<open>now\<close> is the clock when playback has started.\<close>

definition play_try ::
  "string \<Rightarrow> time_point \<Rightarrow> play_replies \<Rightarrow> libvlc_media_player_t \<Rightarrow> bool attempt" where
  "play_try url now r mp =
     and_then (call (Media_player_is_playing mp) (play_is_playing r)) (\<lambda>playing.
     and_then (if playing \<noteq> 0
               then and_then (call (Media_player_stop mp) (play_stop r))
                      (\<lambda>_. call (Sleep 100) (Reply ()))
               else result ()) (\<lambda>_.
     and_then (\<lambda>s. call (Media_new_location (vlcInstance s) url)
                      (play_media_new_location r) s) (\<lambda>media.
     case media of
       None \<Rightarrow> result False
     | Some m \<Rightarrow>
         and_then (call (Media_player_set_media mp m) (play_set_media r)) (\<lambda>_.
         and_then (call (Media_release m) (play_media_release r)) (\<lambda>_.
         and_then (call (Media_player_play mp) (play_play r)) (\<lambda>res.
         and_then (if res = 0
                   then assign (\<lambda>s. s\<lparr>currentUrl := url, lastFrameTime := now,
                                       freezeDetectionEnabled := True, lastFrameCount := 0,
                                       isInErrorState := False\<rparr>)
                   else result ()) (\<lambda>_.
         result (res = 0))))))))"

definition play ::
  "string \<Rightarrow> time_point \<Rightarrow> play_replies \<Rightarrow> VlcPlayer \<Rightarrow> bool \<times> VlcPlayer" where
  "play url now r s =
     (case live_player s of
        None \<Rightarrow> (False, s)
      | Some mp \<Rightarrow>
          (case play_try url now r mp s of
             (Reply b, s') \<Rightarrow> (b, s')
           | (Fault, s') \<Rightarrow> (False, s'\<lparr>isInErrorState := True\<rparr>)))"

text \<open>\<open>stop\<close>; \<open>stopped\<close> is the outcome of \<open>libvlc_media_player_stop\<close>.\<close>

definition stop_try :: "unit reply \<Rightarrow> libvlc_media_player_t \<Rightarrow> bool attempt" where
  "stop_try stopped mp =
     and_then (call (Media_player_stop mp) stopped) (\<lambda>_.
     and_then (assign (\<lambda>s. s\<lparr>freezeDetectionEnabled := False, currentUrl := [],
                               isInErrorState := False\<rparr>)) (\<lambda>_.
     result True))"

definition stop :: "unit reply \<Rightarrow> VlcPlayer \<Rightarrow> bool \<times> VlcPlayer" where
  "stop stopped s =
     (case live_player s of
        None \<Rightarrow> (False, s)
      | Some mp \<Rightarrow>
          (case stop_try stopped mp s of
             (Reply b, s') \<Rightarrow> (b, s')
           | (Fault, s') \<Rightarrow> (False, s')))"

definition pause :: "VlcPlayer \<Rightarrow> bool \<times> VlcPlayer" where
  "pause s =
     (case live_player s of
        None \<Rightarrow> (False, s)
      | Some mp \<Rightarrow> (True, libvlc (Media_player_pause mp) s))"

text \<open>
  \<open>resume\<close>; \<open>playing\<close> is what \<open>libvlc_media_player_is_playing\<close> returns and
  \<open>play_result\<close> what \<open>libvlc_media_player_play\<close> returns (0 on success, -1 on error),
  which the source discards.
\<close>

definition resume :: "int \<Rightarrow> int \<Rightarrow> VlcPlayer \<Rightarrow> bool \<times> VlcPlayer" where
  "resume playing play_result s =
     (case live_player s of
        None \<Rightarrow> (False, s)
      | Some mp \<Rightarrow>
          let s1 = libvlc (Media_player_is_playing mp) s;
              s2 = (if playing = 0 then libvlc (Media_player_play mp) s1 else s1)
          in (True, s2))"

definition setVolume :: "int \<Rightarrow> VlcPlayer \<Rightarrow> bool \<times> VlcPlayer" where
  "setVolume volume s =
     (case live_player s of
        None \<Rightarrow> (False, s)
      | Some mp \<Rightarrow>
          let clampedVolume = (if volume < 0 then 0 else (if volume > 100 then 100 else volume))
          in (True, libvlc (Audio_set_volume mp clampedVolume) s))"

text \<open>\<open>getVolume\<close>; \<open>engine_volume\<close> is what \<open>libvlc_audio_get_volume\<close> returns.\<close>

definition getVolume :: "int \<Rightarrow> VlcPlayer \<Rightarrow> int \<times> VlcPlayer" where
  "getVolume engine_volume s =
     (case live_player s of
        None \<Rightarrow> (0, s)
      | Some mp \<Rightarrow> (engine_volume, libvlc (Audio_get_volume mp) s))"

definition isPlaying :: "int \<Rightarrow> VlcPlayer \<Rightarrow> bool \<times> VlcPlayer" where
  "isPlaying playing s =
     (case live_player s of
        None \<Rightarrow> (False, s)
      | Some mp \<Rightarrow> (playing = 1, libvlc (Media_player_is_playing mp) s))"

definition getState_try ::
  "libvlc_state_t reply \<Rightarrow> libvlc_media_player_t \<Rightarrow> string attempt" where
  "getState_try state_reply mp =
     and_then (call (Media_player_get_state mp) state_reply) (\<lambda>state.
     result (case state of
               libvlc_Playing \<Rightarrow> ''playing''
             | libvlc_Paused \<Rightarrow> ''paused''
             | libvlc_Stopped \<Rightarrow> ''stopped''
             | libvlc_Buffering \<Rightarrow> ''buffering''
             | libvlc_Error \<Rightarrow> ''error''
             | _ \<Rightarrow> ''stopped''))"

definition getState :: "libvlc_state_t reply \<Rightarrow> VlcPlayer \<Rightarrow> string \<times> VlcPlayer" where
  "getState state_reply s =
     (case live_player s of
        None \<Rightarrow> (''stopped'', s)
      | Some mp \<Rightarrow>
          (case getState_try state_reply mp s of
             (Reply str, s') \<Rightarrow> (str, s')
           | (Fault, s') \<Rightarrow> (''error'', s')))"

definition getCurrentUrl :: "VlcPlayer \<Rightarrow> string" where
  "getCurrentUrl s = currentUrl s"

definition isInError :: "VlcPlayer \<Rightarrow> bool" where
  "isInError s = isInErrorState s"

subsection \<open>Freeze detection\<close>

text \<open>
  \<open>duration_cast<seconds>\<close> of a difference of time points: an integer division that
  truncates towards zero. The tick of \<open>steady_clock\<close> is a nanosecond on the target
  (the results below only use that there is at least one tick in a second).
\<close>

definition ticks_per_second :: int where
  "ticks_per_second = 1000000000"

definition elapsed_seconds :: "time_point \<Rightarrow> time_point \<Rightarrow> int" where
  "elapsed_seconds now since = (now - since) sdiv ticks_per_second"

record frozen_replies =
  frozen_get_state :: "libvlc_state_t reply"
  frozen_get_media :: "libvlc_media_t option reply"
  frozen_media_get_state :: "libvlc_state_t reply"

definition isStreamFrozen_try ::
  "int \<Rightarrow> time_point \<Rightarrow> frozen_replies \<Rightarrow> libvlc_media_player_t \<Rightarrow> bool attempt" where
  "isStreamFrozen_try freezeThresholdSeconds now r mp =
     and_then (call (Media_player_get_state mp) (frozen_get_state r)) (\<lambda>state.
     if state = libvlc_Error \<or> state = libvlc_Ended then result True
     else if state \<noteq> libvlc_Playing then result False
     else
       and_then (\<lambda>s. result (elapsed_seconds now (lastFrameTime s)) s) (\<lambda>elapsed.
       and_then (call (Media_player_get_media mp) (frozen_get_media r)) (\<lambda>media.
       and_then (case media of
                   Some m \<Rightarrow>
                     and_then (call (Media_get_state m) (frozen_media_get_state r))
                       (\<lambda>mediaState. result (mediaState = libvlc_Error))
                 | None \<Rightarrow> result False) (\<lambda>media_in_error.
       if media_in_error then result True
       else if elapsed \<ge> freezeThresholdSeconds then result True
       else result False))))"

definition isStreamFrozen ::
  "int \<Rightarrow> time_point \<Rightarrow> frozen_replies \<Rightarrow> VlcPlayer \<Rightarrow> bool \<times> VlcPlayer" where
  "isStreamFrozen freezeThresholdSeconds now r s =
     (case live_player s of
        None \<Rightarrow> (False, s)
      | Some mp \<Rightarrow>
          if \<not> freezeDetectionEnabled s then (False, s)
          else
            (case isStreamFrozen_try freezeThresholdSeconds now r mp s of
               (Reply b, s') \<Rightarrow> (b, s')
             | (Fault, s') \<Rightarrow> (True, s')))"

record update_replies =
  update_is_playing :: "int reply"
  update_get_time :: "int reply"

definition updateFrameTime_try ::
  "time_point \<Rightarrow> update_replies \<Rightarrow> libvlc_media_player_t \<Rightarrow> unit attempt" where
  "updateFrameTime_try now r mp =
     and_then (call (Media_player_is_playing mp) (update_is_playing r)) (\<lambda>playing.
     if playing \<noteq> 0
     then and_then (call (Media_player_get_time mp) (update_get_time r)) (\<lambda>currentTime.
            and_then (\<lambda>s. result (lastFrameCount s) s) (\<lambda>lastCount.
            if currentTime \<noteq> lastCount \<and> currentTime > 0
            then assign (\<lambda>s. s\<lparr>lastFrameTime := now, lastFrameCount := currentTime\<rparr>)
            else result ()))
     else result ())"

definition updateFrameTime :: "time_point \<Rightarrow> update_replies \<Rightarrow> VlcPlayer \<Rightarrow> VlcPlayer" where
  "updateFrameTime now r s =
     (case mediaPlayer s of
        Some mp \<Rightarrow>
          if freezeDetectionEnabled s then snd (updateFrameTime_try now r mp s) else s
      | None \<Rightarrow> s)"

subsection \<open>Stream statistics\<close>

text \<open>
  Modelled from the spec: \<open>libvlc_media_stats_t\<close> is declared in vlc/vlc.h, which is not
  under src/. Section 6 of the spec gives \<open>getStats(source) -> StatsSnapshot | fail\<close>, so
  the engine's five counters are taken with the types of \<open>StreamStats\<close>; \<open>None\<close> is
  \<open>libvlc_media_get_stats\<close> returning false.
\<close>

record libvlc_media_stats_t =
  f_input_bitrate :: "32 word"
  f_demux_bitrate :: "32 word"
  i_lost_abuffers :: int
  i_displayed_pictures :: int
  i_lost_pictures :: int

record stats_replies =
  stats_get_media :: "libvlc_media_t option reply"
  stats_get_stats :: "libvlc_media_stats_t option reply"

definition getStats_try ::
  "stats_replies \<Rightarrow> libvlc_media_player_t \<Rightarrow> StreamStats attempt" where
  "getStats_try r mp =
     (let stats = StreamStats_default in
      and_then (call (Media_player_get_media mp) (stats_get_media r)) (\<lambda>media.
      case media of
        None \<Rightarrow> result stats
      | Some m \<Rightarrow>
          and_then (call (Media_get_stats m) (stats_get_stats r)) (\<lambda>got.
          case got of
            Some vlcStats \<Rightarrow>
              (let stats' = stats\<lparr>inputBitrate := f_input_bitrate vlcStats,
                                   demuxBitrate := f_demux_bitrate vlcStats,
                                   lostBuffers := i_lost_abuffers vlcStats,
                                   displayedPictures := i_displayed_pictures vlcStats,
                                   lostPictures := i_lost_pictures vlcStats\<rparr>
               in and_then (assign (\<lambda>s. s\<lparr>lastStats := stats'\<rparr>)) (\<lambda>_. result stats'))
          | None \<Rightarrow> result stats)))"

definition getStats :: "stats_replies \<Rightarrow> VlcPlayer \<Rightarrow> StreamStats \<times> VlcPlayer" where
  "getStats r s =
     (case live_player s of
        None \<Rightarrow> (StreamStats_default, s)
      | Some mp \<Rightarrow>
          (case getStats_try r mp s of
             (Reply stats, s') \<Rightarrow> (stats, s')
           | (Fault, s') \<Rightarrow> (lastStats s', s')))"

subsection \<open>Recording\<close>

record recording_replies =
  recording_get_media :: "libvlc_media_t option reply"
  recording_add_option :: "unit reply"

definition startRecording_try ::
  "string \<Rightarrow> recording_replies \<Rightarrow> libvlc_media_player_t \<Rightarrow> bool attempt" where
  "startRecording_try filePath r mp =
     (let sout = ''#duplicate{dst=display,dst=std{access=file,mux=ts,dst='' @ filePath @ ''}}'' in
      and_then (call (Media_player_get_media mp) (recording_get_media r)) (\<lambda>media.
      case media of
        None \<Rightarrow> result False
      | Some m \<Rightarrow>
          and_then (call (Media_add_option m sout) (recording_add_option r)) (\<lambda>_.
          and_then (assign (\<lambda>s. s\<lparr>isRecording := True, recordingPath := filePath\<rparr>)) (\<lambda>_.
          result True))))"

definition startRecording ::
  "string \<Rightarrow> recording_replies \<Rightarrow> VlcPlayer \<Rightarrow> bool \<times> VlcPlayer" where
  "startRecording filePath r s =
     (case live_player s of
        None \<Rightarrow> (False, s)
      | Some mp \<Rightarrow>
          if isRecording s then (False, s)
          else
            (case startRecording_try filePath r mp s of
               (Reply b, s') \<Rightarrow> (b, s')
             | (Fault, s') \<Rightarrow> (False, s')))"

definition stopRecording :: "VlcPlayer \<Rightarrow> bool \<times> VlcPlayer" where
  "stopRecording s =
     (if \<not> isRecording s then (False, s)
      else (True, s\<lparr>isRecording := False, recordingPath := []\<rparr>))"

definition getIsRecording :: "VlcPlayer \<Rightarrow> bool" where
  "getIsRecording s = isRecording s"

definition getRecordingPath :: "VlcPlayer \<Rightarrow> string" where
  "getRecordingPath s = recordingPath s"

subsection \<open>Sequences of operations\<close>

text \<open>
  One constructor for each method that can change the state or calls the engine, with
  the method's arguments and the engine's answers. The four remaining methods
  (\<open>getCurrentUrl\<close>, \<open>isInError\<close>, \<open>getIsRecording\<close>, \<open>getRecordingPath\<close>) read one field.
\<close>

datatype operation =
    Initialize HWND "libvlc_instance_t option" "libvlc_media_player_t option"
  | Play string time_point play_replies
  | Stop "unit reply"
  | Pause
  | Resume int int
  | SetVolume int
  | GetVolume int
  | IsPlaying int
  | GetState "libvlc_state_t reply"
  | IsStreamFrozen int time_point frozen_replies
  | UpdateFrameTime time_point update_replies
  | RecreateMediaPlayer "libvlc_media_player_t option"
  | GetStats stats_replies
  | StartRecording string recording_replies
  | StopRecording
  | Cleanup

fun exec :: "operation \<Rightarrow> VlcPlayer \<Rightarrow> VlcPlayer" where
  "exec (Initialize w i p) s = snd (initialize w i p s)"
| "exec (Play url now r) s = snd (play url now r s)"
| "exec (Stop r) s = snd (stop r s)"
| "exec Pause s = snd (pause s)"
| "exec (Resume playing res) s = snd (resume playing res s)"
| "exec (SetVolume v) s = snd (setVolume v s)"
| "exec (GetVolume v) s = snd (getVolume v s)"
| "exec (IsPlaying playing) s = snd (isPlaying playing s)"
| "exec (GetState r) s = snd (getState r s)"
| "exec (IsStreamFrozen t now r) s = snd (isStreamFrozen t now r s)"
| "exec (UpdateFrameTime now r) s = updateFrameTime now r s"
| "exec (RecreateMediaPlayer p) s = snd (recreateMediaPlayer p s)"
| "exec (GetStats r) s = snd (getStats r s)"
| "exec (StartRecording path r) s = snd (startRecording path r s)"
| "exec StopRecording s = snd (stopRecording s)"
| "exec Cleanup s = cleanup s"

fun run :: "operation list \<Rightarrow> VlcPlayer \<Rightarrow> VlcPlayer" where
  "run [] s = s"
| "run (x # xs) s = run xs (exec x s)"

subsection \<open>The engine's volume\<close>

text \<open>
  Modelled from the spec: libVLC is not under src/. Section 6 of the spec gives the
  engine \<open>getVolume/setVolume(player, 0..100)\<close>: the volume the engine reports for the
  player \<open>mp\<close> is the one last set for it among the calls \<open>cs\<close> it has received, and
  \<open>v\<close> before any was set.
\<close>

fun libvlc_audio_get_volume ::
  "libvlc_media_player_t \<Rightarrow> int \<Rightarrow> libvlc_call list \<Rightarrow> int" where
  "libvlc_audio_get_volume mp v [] = v"
| "libvlc_audio_get_volume mp v (Audio_set_volume p x # cs) =
     libvlc_audio_get_volume mp (if p = mp then x else v) cs"
| "libvlc_audio_get_volume mp v (_ # cs) = libvlc_audio_get_volume mp v cs"

subsection \<open>Sessions and engine answers used as examples\<close>

text \<open>The engine accepts every call of \<open>play\<close>; nothing was playing before.\<close>

definition play_ok :: play_replies where
  "play_ok =
     \<lparr>play_is_playing = Reply 0, play_stop = Reply (),
      play_media_new_location = Reply (Some 3), play_set_media = Reply (),
      play_media_release = Reply (), play_play = Reply 0\<rparr>"

text \<open>The engine cannot create the media from the location.\<close>

definition play_no_media :: play_replies where
  "play_no_media = play_ok\<lparr>play_media_new_location := Reply None\<rparr>"

text \<open>\<open>libvlc_media_player_play\<close> returns -1.\<close>

definition play_refused :: play_replies where
  "play_refused = play_ok\<lparr>play_play := Reply (- 1)\<rparr>"

text \<open>A session after a successful \<open>initialize(42)\<close>.\<close>

definition fresh_session :: VlcPlayer where
  "fresh_session = run [Initialize 42 (Some 1) (Some 2)] (VlcPlayer_new 0)"

text \<open>The same session after a successful \<open>play\<close>.\<close>

definition playing_session :: VlcPlayer where
  "playing_session = run [Play ''udp://239.0.0.1:1234'' 0 play_ok] fresh_session"

text \<open>
  The playing session after a \<open>recreateMediaPlayer\<close> in which the engine could not create
  the new player.
\<close>

definition orphaned_session :: VlcPlayer where
  "orphaned_session = run [RecreateMediaPlayer None] playing_session"

text \<open>The player plays, and its media is in the error state.\<close>

definition media_error :: frozen_replies where
  "media_error =
     \<lparr>frozen_get_state = Reply libvlc_Playing, frozen_get_media = Reply (Some 3),
      frozen_media_get_state = Reply libvlc_Error\<rparr>"

text \<open>The player and its media play.\<close>

definition steady :: frozen_replies where
  "steady =
     \<lparr>frozen_get_state = Reply libvlc_Playing, frozen_get_media = Reply (Some 3),
      frozen_media_get_state = Reply libvlc_Playing\<rparr>"

text \<open>The engine has statistics; the two bit rates are the bits of \<open>2000.0f\<close>.\<close>

definition stats_ok :: stats_replies where
  "stats_ok =
     \<lparr>stats_get_media = Reply (Some 3),
      stats_get_stats =
        Reply (Some \<lparr>f_input_bitrate = 0x44FA0000, f_demux_bitrate = 0x44FA0000,
                     i_lost_abuffers = 1, i_displayed_pictures = 250,
                     i_lost_pictures = 2\<rparr>)\<rparr>"

definition first_snapshot :: StreamStats where
  "first_snapshot =
     \<lparr>inputBitrate = 0x44FA0000, demuxBitrate = 0x44FA0000, lostBuffers = 1,
      displayedPictures = 250, lostPictures = 2\<rparr>"

text \<open>The engine reports no statistics for the media.\<close>

definition stats_none :: stats_replies where
  "stats_none = \<lparr>stats_get_media = Reply (Some 3), stats_get_stats = Reply None\<rparr>"

text \<open>The player has no media.\<close>

definition no_source :: stats_replies where
  "no_source = \<lparr>stats_get_media = Reply None, stats_get_stats = Reply None\<rparr>"

text \<open>The player has a media, and the option is added to it.\<close>

definition recording_ok :: recording_replies where
  "recording_ok = \<lparr>recording_get_media = Reply (Some 3), recording_add_option = Reply ()\<rparr>"

subsection \<open>Invariants\<close>

text \<open>
  What every sequence of operations keeps of the three handles: a player handle only in
  an initialized session, and the engine instance exactly in an initialized session.
\<close>

definition session_inv :: "VlcPlayer \<Rightarrow> bool" where
  "session_inv s \<longleftrightarrow>
     (mediaPlayer s \<noteq> None \<longrightarrow> initialized s) \<and> (initialized s \<longleftrightarrow> vlcInstance s \<noteq> None)"

definition recording_inv :: "VlcPlayer \<Rightarrow> bool" where
  "recording_inv s \<longleftrightarrow> (recordingPath s \<noteq> [] \<longleftrightarrow> isRecording s)"

text \<open>The operation does not start a recording to the empty path.\<close>

fun path_given :: "operation \<Rightarrow> bool" where
  "path_given (StartRecording path r) = (path \<noteq> [])"
| "path_given _ = True"

section \<open>Auxiliary facts\<close>

lemmas attempt_defs = and_then_def call_def result_def assign_def libvlc_def

subsection \<open>The example sessions, field by field\<close>

lemma fresh_session_eq:
  "fresh_session =
     \<lparr>vlcInstance = Some 1, mediaPlayer = Some 2, hwnd = 42, initialized = True,
      lastFrameTime = 0, freezeDetectionEnabled = False, lastFrameCount = 0,
      currentUrl = [], isInErrorState = False, lastStats = StreamStats_default,
      isRecording = False, recordingPath = [], audioOnlyMode = False,
      calls = [Libvlc_new vlc_args, Media_player_new 1, Media_player_set_hwnd 2 42]\<rparr>"
  by (simp add: fresh_session_def VlcPlayer_new_def initialize_def libvlc_def)

lemma playing_session_eq:
  "playing_session =
     fresh_session\<lparr>currentUrl := ''udp://239.0.0.1:1234'', freezeDetectionEnabled := True,
       calls := calls fresh_session @
         [Media_player_is_playing 2, Media_new_location (Some 1) ''udp://239.0.0.1:1234'',
          Media_player_set_media 2 3, Media_release 3, Media_player_play 2]\<rparr>"
  by (simp add: playing_session_def fresh_session_eq play_def play_try_def play_ok_def
      live_player_def attempt_defs)

lemma orphaned_session_eq:
  "orphaned_session =
     playing_session\<lparr>mediaPlayer := None,
       calls := calls playing_session @ [Media_player_release 2, Media_player_new 1]\<rparr>"
  by (simp add: orphaned_session_def playing_session_eq fresh_session_eq
      recreateMediaPlayer_def libvlc_def)

subsection \<open>Fields that an operation leaves alone\<close>

lemma play_frame:
  "vlcInstance (snd (play url now r s)) = vlcInstance s"
  "mediaPlayer (snd (play url now r s)) = mediaPlayer s"
  "initialized (snd (play url now r s)) = initialized s"
  "isRecording (snd (play url now r s)) = isRecording s"
  "recordingPath (snd (play url now r s)) = recordingPath s"
  by (auto simp add: play_def play_try_def attempt_defs
      split: option.splits reply.splits prod.splits if_splits)

lemma stop_frame:
  "vlcInstance (snd (stop r s)) = vlcInstance s"
  "mediaPlayer (snd (stop r s)) = mediaPlayer s"
  "initialized (snd (stop r s)) = initialized s"
  "isRecording (snd (stop r s)) = isRecording s"
  "recordingPath (snd (stop r s)) = recordingPath s"
  by (auto simp add: stop_def stop_try_def attempt_defs
      split: option.splits reply.splits prod.splits)

lemma pause_frame:
  "vlcInstance (snd (pause s)) = vlcInstance s"
  "mediaPlayer (snd (pause s)) = mediaPlayer s"
  "initialized (snd (pause s)) = initialized s"
  "isRecording (snd (pause s)) = isRecording s"
  "recordingPath (snd (pause s)) = recordingPath s"
  by (auto simp add: pause_def libvlc_def split: option.splits)

lemma resume_frame:
  "vlcInstance (snd (resume a b s)) = vlcInstance s"
  "mediaPlayer (snd (resume a b s)) = mediaPlayer s"
  "initialized (snd (resume a b s)) = initialized s"
  "isRecording (snd (resume a b s)) = isRecording s"
  "recordingPath (snd (resume a b s)) = recordingPath s"
  by (auto simp add: resume_def libvlc_def Let_def split: option.splits)

lemma volume_frame:
  "vlcInstance (snd (setVolume v s)) = vlcInstance s"
  "mediaPlayer (snd (setVolume v s)) = mediaPlayer s"
  "initialized (snd (setVolume v s)) = initialized s"
  "isRecording (snd (setVolume v s)) = isRecording s"
  "recordingPath (snd (setVolume v s)) = recordingPath s"
  "vlcInstance (snd (getVolume v s)) = vlcInstance s"
  "mediaPlayer (snd (getVolume v s)) = mediaPlayer s"
  "initialized (snd (getVolume v s)) = initialized s"
  "isRecording (snd (getVolume v s)) = isRecording s"
  "recordingPath (snd (getVolume v s)) = recordingPath s"
  by (auto simp add: setVolume_def getVolume_def libvlc_def Let_def split: option.splits)

lemma state_query_frame:
  "vlcInstance (snd (isPlaying a s)) = vlcInstance s"
  "mediaPlayer (snd (isPlaying a s)) = mediaPlayer s"
  "initialized (snd (isPlaying a s)) = initialized s"
  "isRecording (snd (isPlaying a s)) = isRecording s"
  "recordingPath (snd (isPlaying a s)) = recordingPath s"
  "vlcInstance (snd (getState r s)) = vlcInstance s"
  "mediaPlayer (snd (getState r s)) = mediaPlayer s"
  "initialized (snd (getState r s)) = initialized s"
  "isRecording (snd (getState r s)) = isRecording s"
  "recordingPath (snd (getState r s)) = recordingPath s"
  by (auto simp add: isPlaying_def getState_def getState_try_def attempt_defs
      split: option.splits reply.splits prod.splits)

lemma isStreamFrozen_frame:
  "vlcInstance (snd (isStreamFrozen t now r s)) = vlcInstance s"
  "mediaPlayer (snd (isStreamFrozen t now r s)) = mediaPlayer s"
  "initialized (snd (isStreamFrozen t now r s)) = initialized s"
  "isRecording (snd (isStreamFrozen t now r s)) = isRecording s"
  "recordingPath (snd (isStreamFrozen t now r s)) = recordingPath s"
  by (auto simp add: isStreamFrozen_def isStreamFrozen_try_def attempt_defs
      split: option.splits reply.splits prod.splits if_splits)

lemma updateFrameTime_frame:
  "vlcInstance (updateFrameTime now r s) = vlcInstance s"
  "mediaPlayer (updateFrameTime now r s) = mediaPlayer s"
  "initialized (updateFrameTime now r s) = initialized s"
  "isRecording (updateFrameTime now r s) = isRecording s"
  "recordingPath (updateFrameTime now r s) = recordingPath s"
  by (auto simp add: updateFrameTime_def updateFrameTime_try_def attempt_defs
      split: option.splits reply.splits prod.splits if_splits)

lemma getStats_frame:
  "vlcInstance (snd (getStats r s)) = vlcInstance s"
  "mediaPlayer (snd (getStats r s)) = mediaPlayer s"
  "initialized (snd (getStats r s)) = initialized s"
  "isRecording (snd (getStats r s)) = isRecording s"
  "recordingPath (snd (getStats r s)) = recordingPath s"
  by (auto simp add: getStats_def getStats_try_def attempt_defs Let_def
      split: option.splits reply.splits prod.splits)

lemma recording_frame:
  "vlcInstance (snd (startRecording p r s)) = vlcInstance s"
  "mediaPlayer (snd (startRecording p r s)) = mediaPlayer s"
  "initialized (snd (startRecording p r s)) = initialized s"
  "vlcInstance (snd (stopRecording s)) = vlcInstance s"
  "mediaPlayer (snd (stopRecording s)) = mediaPlayer s"
  "initialized (snd (stopRecording s)) = initialized s"
  by (auto simp add: startRecording_def startRecording_try_def stopRecording_def
      attempt_defs Let_def split: option.splits reply.splits prod.splits)

lemma handles_frame:
  "isRecording (snd (initialize w i p s)) = isRecording s"
  "recordingPath (snd (initialize w i p s)) = recordingPath s"
  "isRecording (snd (recreateMediaPlayer p s)) = isRecording s"
  "recordingPath (snd (recreateMediaPlayer p s)) = recordingPath s"
  "isRecording (cleanup s) = isRecording s"
  "recordingPath (cleanup s) = recordingPath s"
  by (auto simp add: initialize_def recreateMediaPlayer_def cleanup_def libvlc_def Let_def
      split: option.splits)

lemmas frames = play_frame stop_frame pause_frame resume_frame volume_frame
  state_query_frame isStreamFrozen_frame updateFrameTime_frame getStats_frame
  recording_frame handles_frame

subsection \<open>The invariants along a sequence of operations\<close>

lemma initialize_session_inv: "session_inv s \<Longrightarrow> session_inv (snd (initialize w i p s))"
  by (auto simp add: session_inv_def initialize_def libvlc_def Let_def split: option.splits)

lemma recreateMediaPlayer_session_inv:
  "session_inv s \<Longrightarrow> session_inv (snd (recreateMediaPlayer p s))"
  by (auto simp add: session_inv_def recreateMediaPlayer_def libvlc_def Let_def
      split: option.splits)

lemma cleanup_session_inv: "session_inv (cleanup s)"
  by (auto simp add: session_inv_def cleanup_def libvlc_def Let_def split: option.splits)

lemma exec_session_inv:
  assumes "session_inv s"
  shows "session_inv (exec x s)"
proof (cases x)
  case (Initialize w i p)
  then show ?thesis using assms by (simp add: initialize_session_inv)
next
  case (RecreateMediaPlayer p)
  then show ?thesis using assms by (simp add: recreateMediaPlayer_session_inv)
next
  case Cleanup
  then show ?thesis by (simp add: cleanup_session_inv)
qed (use assms in \<open>auto simp add: session_inv_def frames\<close>)

lemma run_session_inv: "session_inv s \<Longrightarrow> session_inv (run xs s)"
  by (induction xs arbitrary: s) (simp_all add: exec_session_inv)

lemma VlcPlayer_new_session_inv: "session_inv (VlcPlayer_new now)"
  by (simp add: session_inv_def VlcPlayer_new_def)

lemma startRecording_recording_inv:
  "path \<noteq> [] \<Longrightarrow> recording_inv s \<Longrightarrow> recording_inv (snd (startRecording path r s))"
  by (auto simp add: recording_inv_def startRecording_def startRecording_try_def
      attempt_defs Let_def split: option.splits reply.splits prod.splits)

lemma stopRecording_recording_inv:
  "recording_inv s \<Longrightarrow> recording_inv (snd (stopRecording s))"
  by (simp add: recording_inv_def stopRecording_def)

lemma exec_recording_inv:
  assumes "recording_inv s" and "path_given x"
  shows "recording_inv (exec x s)"
proof (cases x)
  case (StartRecording path r)
  then show ?thesis using assms by (simp add: startRecording_recording_inv)
next
  case StopRecording
  then show ?thesis using assms by (simp add: stopRecording_recording_inv)
qed (use assms in \<open>auto simp add: recording_inv_def frames\<close>)

lemma run_recording_inv:
  "recording_inv s \<Longrightarrow> \<forall>x \<in> set xs. path_given x \<Longrightarrow> recording_inv (run xs s)"
  by (induction xs arbitrary: s) (simp_all add: exec_recording_inv)

text \<open>A path that is stored belongs to an active recording, whatever the paths were.\<close>

lemma exec_path_active:
  assumes "recordingPath s \<noteq> [] \<longrightarrow> isRecording s"
  shows "recordingPath (exec x s) \<noteq> [] \<longrightarrow> isRecording (exec x s)"
proof (cases x)
  case (StartRecording path r)
  then show ?thesis
    using assms
    by (auto simp add: startRecording_def startRecording_try_def attempt_defs Let_def
        split: option.splits reply.splits prod.splits if_splits)
next
  case StopRecording
  then show ?thesis using assms by (auto simp add: stopRecording_def)
qed (use assms in \<open>auto simp add: frames\<close>)

subsection \<open>Whole seconds of a non-negative duration\<close>

lemma sdiv_nonneg:
  fixes d P :: int
  shows "0 \<le> d \<Longrightarrow> 0 < P \<Longrightarrow> d sdiv P = d div P"
  by (cases "d = 0") (simp_all add: signed_divide_int_def)

lemma int_div_ge:
  fixes d P t :: int
  assumes "0 < P"
  shows "(t \<le> d div P) = (t * P \<le> d)"
proof
  assume "t \<le> d div P"
  then have "t * P \<le> (d div P) * P"
    using assms by (simp add: mult_right_mono)
  moreover have "0 \<le> d mod P"
    using assms by simp
  moreover have "d div P * P + d mod P = d"
    by (rule div_mult_mod_eq)
  ultimately show "t * P \<le> d"
    by linarith
next
  assume "t * P \<le> d"
  then have "(t * P) div P \<le> d div P"
    using assms by (rule zdiv_mono1)
  then show "t \<le> d div P"
    using assms by simp
qed

lemma elapsed_seconds_ge:
  "since \<le> now \<Longrightarrow>
     (t \<le> elapsed_seconds now since) = (t * ticks_per_second \<le> now - since)"
  by (simp add: elapsed_seconds_def sdiv_nonneg int_div_ge ticks_per_second_def)

text \<open>With the clock running backwards the two would differ: the division truncates.\<close>

lemma elapsed_seconds_truncates: "elapsed_seconds 0 1 = 0"
  by (simp add: elapsed_seconds_def ticks_per_second_def signed_divide_int_def)

subsection \<open>The engine's volume after a call that sets it\<close>

lemma libvlc_audio_get_volume_last:
  "libvlc_audio_get_volume mp v0 (cs @ [Audio_set_volume mp x]) = x"
proof (induction cs arbitrary: v0)
  case Nil
  show ?case by simp
next
  case (Cons c cs)
  then show ?case by (cases c) simp_all
qed

section \<open>Recovery and resume\<close>

text \<open>
  C4: \<open>recreateMediaPlayer\<close> fails, changing nothing, when there is no engine instance, as
  in a session in which \<open>initialize\<close> was never called. With an engine instance \<open>inst\<close>,
  when the engine creates the player \<open>mp'\<close>, it releases the old player if there is one,
  creates the new one from \<open>inst\<close>, attaches the stored window handle to it, clears the
  error flag and returns true. When the engine creates no player it returns false, the
  engine instance is kept and not released, and a later call can succeed.
\<close>

theorem recreateMediaPlayer_spec:
  "(vlcInstance s = None \<longrightarrow> recreateMediaPlayer new_player s = (False, s)) \<and>
   recreateMediaPlayer new_player (VlcPlayer_new now) = (False, VlcPlayer_new now) \<and>
   (vlcInstance s = Some inst \<and> new_player = Some mp' \<longrightarrow>
      recreateMediaPlayer new_player s =
        (True, s\<lparr>mediaPlayer := Some mp', isInErrorState := False,
                 calls := calls s
                   @ (case mediaPlayer s of
                        Some mp \<Rightarrow> [Media_player_release mp]
                      | None \<Rightarrow> [])
                   @ [Media_player_new inst, Media_player_set_hwnd mp' (hwnd s)]\<rparr>)) \<and>
   (vlcInstance s = Some inst \<and> new_player = None \<longrightarrow>
      fst (recreateMediaPlayer new_player s) = False \<and>
      vlcInstance (snd (recreateMediaPlayer new_player s)) = Some inst \<and>
      Libvlc_release inst
        \<notin> set (drop (length (calls s)) (calls (snd (recreateMediaPlayer new_player s)))) \<and>
      fst (recreateMediaPlayer (Some mp') (snd (recreateMediaPlayer new_player s))) = True)"
  by (auto simp add: recreateMediaPlayer_def VlcPlayer_new_def libvlc_def Let_def
      split: option.splits)

theorem recreateMediaPlayer_spec_witness:
  "vlcInstance fresh_session = Some 1 \<and>
   recreateMediaPlayer (Some 7) fresh_session =
     (True, fresh_session\<lparr>mediaPlayer := Some 7, isInErrorState := False,
        calls := calls fresh_session
          @ [Media_player_release 2, Media_player_new 1, Media_player_set_hwnd 7 42]\<rparr>) \<and>
   fst (recreateMediaPlayer None fresh_session) = False \<and>
   vlcInstance (snd (recreateMediaPlayer None fresh_session)) = Some 1"
  using recreateMediaPlayer_spec [of fresh_session "Some 7" 0 1 7]
    recreateMediaPlayer_spec [of fresh_session None 0 1 7]
  by (simp add: fresh_session_eq)

text \<open>
  C10: in an initialized session with a player handle, \<open>resume\<close> returns true whatever
  the engine answers, also when the engine is not playing and the play request that
  \<open>resume\<close> then forwards returns an error.
\<close>

theorem resume_always_true:
  "live_player s = Some mp \<Longrightarrow>
     fst (resume playing play_result s) = True \<and>
     calls (snd (resume playing play_result s)) =
       calls s @ Media_player_is_playing mp
               # (if playing = 0 then [Media_player_play mp] else [])"
  by (simp add: resume_def libvlc_def Let_def)

theorem resume_always_true_witness:
  "live_player fresh_session = Some 2 \<and>
   fst (resume 0 (- 1) fresh_session) = True \<and>
   calls (snd (resume 0 (- 1) fresh_session)) =
     calls fresh_session @ [Media_player_is_playing 2, Media_player_play 2]"
proof -
  have h: "live_player fresh_session = Some 2"
    by (simp add: fresh_session_eq live_player_def)
  from resume_always_true [OF h, of 0 "- 1"] show ?thesis
    using h by simp
qed

section \<open>Playback\<close>

text \<open>
  C8: in an initialized session with a player handle, \<open>stop\<close>, the engine's stop call
  returning, disables freeze detection, clears the current URL and the error flag and
  returns true; after it \<open>getCurrentUrl\<close> returns the empty string and
  \<open>isStreamFrozen\<close> returns false, whatever the threshold, the clock and the engine's
  answers.
\<close>

theorem stop_spec:
  "live_player s = Some mp \<Longrightarrow>
     fst (stop (Reply ()) s) = True \<and>
     freezeDetectionEnabled (snd (stop (Reply ()) s)) = False \<and>
     currentUrl (snd (stop (Reply ()) s)) = [] \<and>
     isInError (snd (stop (Reply ()) s)) = False \<and>
     getCurrentUrl (snd (stop (Reply ()) s)) = [] \<and>
     fst (isStreamFrozen threshold now r (snd (stop (Reply ()) s))) = False"
  by (simp add: stop_def stop_try_def attempt_defs getCurrentUrl_def isInError_def
      isStreamFrozen_def live_player_def split: option.splits)

theorem stop_spec_witness:
  "live_player playing_session = Some 2 \<and>
   getCurrentUrl playing_session = ''udp://239.0.0.1:1234'' \<and>
   fst (stop (Reply ()) playing_session) = True \<and>
   getCurrentUrl (snd (stop (Reply ()) playing_session)) = [] \<and>
   fst (isStreamFrozen 10 (11 * ticks_per_second) steady
          (snd (stop (Reply ()) playing_session))) = False"
proof -
  have h: "live_player playing_session = Some 2"
    by (simp add: playing_session_eq fresh_session_eq live_player_def)
  have u: "getCurrentUrl playing_session = ''udp://239.0.0.1:1234''"
    by (simp add: playing_session_eq getCurrentUrl_def)
  from stop_spec [OF h, of 10 "11 * ticks_per_second" steady] show ?thesis
    using h u by simp
qed

text \<open>
  The session of the next statement is initialized and has lost its player handle: there
  \<open>stop\<close> returns false and the URL stays.
\<close>

theorem stop_without_player_counterexample:
  "initialized orphaned_session \<and>
   fst (stop (Reply ()) orphaned_session) = False \<and>
   getCurrentUrl (snd (stop (Reply ()) orphaned_session)) = ''udp://239.0.0.1:1234'' \<and>
   freezeDetectionEnabled (snd (stop (Reply ()) orphaned_session)) = True"
  by (simp add: orphaned_session_eq playing_session_eq fresh_session_eq stop_def
      live_player_def getCurrentUrl_def)

text \<open>
  C9: in an initialized session with a player handle, \<open>setVolume v\<close> returns true for
  every integer \<open>v\<close> and forwards to the engine exactly \<open>v\<close> clamped to 0..100, in one
  call; \<open>getVolume\<close> after it returns that value, the engine reporting the volume last
  set.
\<close>

theorem setVolume_getVolume:
  "live_player s = Some mp \<Longrightarrow>
     fst (setVolume v s) = True \<and>
     calls (snd (setVolume v s)) = calls s @ [Audio_set_volume mp (max 0 (min 100 v))] \<and>
     fst (getVolume (libvlc_audio_get_volume mp v0 (calls (snd (setVolume v s))))
            (snd (setVolume v s))) = max 0 (min 100 v)"
  by (auto simp add: setVolume_def getVolume_def live_player_def libvlc_def
      libvlc_audio_get_volume_last Let_def)

theorem setVolume_getVolume_witness:
  "live_player fresh_session = Some 2 \<and>
   fst (setVolume 250 fresh_session) = True \<and>
   calls (snd (setVolume 250 fresh_session)) = calls fresh_session @ [Audio_set_volume 2 100] \<and>
   fst (getVolume (libvlc_audio_get_volume 2 77 (calls (snd (setVolume 250 fresh_session))))
          (snd (setVolume 250 fresh_session))) = 100"
proof -
  have h: "live_player fresh_session = Some 2"
    by (simp add: fresh_session_eq live_player_def)
  from setVolume_getVolume [OF h, of 250 77] show ?thesis
    using h by auto
qed

text \<open>
  In the initialized session that has lost its player handle \<open>setVolume\<close> returns false
  and forwards nothing.
\<close>

theorem setVolume_without_player_counterexample:
  "initialized orphaned_session \<and>
   fst (setVolume 50 orphaned_session) = False \<and>
   calls (snd (setVolume 50 orphaned_session)) = calls orphaned_session"
  by (simp add: orphaned_session_eq playing_session_eq fresh_session_eq setVolume_def
      live_player_def)

section \<open>Recording\<close>

text \<open>
  C7: \<open>startRecording\<close> returns false when the session is not initialized, when a
  recording is active, and when the player has no media. In an initialized session with a
  player handle, no recording active and a media loaded, the engine's calls returning,
  it returns true, after which \<open>getIsRecording\<close> is true and \<open>getRecordingPath\<close> is the
  path; a further \<open>startRecording\<close>, with any path and any answers of the engine, then
  returns false.
\<close>

theorem startRecording_spec:
  "(\<not> initialized s \<longrightarrow> fst (startRecording path r s) = False) \<and>
   (isRecording s \<longrightarrow> fst (startRecording path r s) = False) \<and>
   (recording_get_media r = Reply None \<longrightarrow> fst (startRecording path r s) = False) \<and>
   (live_player s = Some mp \<and> \<not> isRecording s \<and>
    recording_get_media r = Reply (Some m) \<and> recording_add_option r = Reply () \<longrightarrow>
      fst (startRecording path r s) = True \<and>
      getIsRecording (snd (startRecording path r s)) = True \<and>
      getRecordingPath (snd (startRecording path r s)) = path \<and>
      fst (startRecording path' r' (snd (startRecording path r s))) = False)"
  by (auto simp add: startRecording_def startRecording_try_def attempt_defs live_player_def
      getIsRecording_def getRecordingPath_def Let_def
      split: option.splits reply.splits if_splits)

theorem startRecording_spec_witness:
  "fst (startRecording ''/tmp/out.ts'' recording_ok (VlcPlayer_new 0)) = False \<and>
   fst (startRecording ''/tmp/out.ts''
          \<lparr>recording_get_media = Reply None, recording_add_option = Reply ()\<rparr>
          fresh_session) = False \<and>
   fst (startRecording ''/tmp/out.ts'' recording_ok playing_session) = True \<and>
   getIsRecording (snd (startRecording ''/tmp/out.ts'' recording_ok playing_session)) = True \<and>
   getRecordingPath (snd (startRecording ''/tmp/out.ts'' recording_ok playing_session))
     = ''/tmp/out.ts'' \<and>
   fst (startRecording ''/tmp/other.ts'' recording_ok
          (snd (startRecording ''/tmp/out.ts'' recording_ok playing_session))) = False"
proof -
  have a: "\<not> initialized (VlcPlayer_new 0)"
    by (simp add: VlcPlayer_new_def)
  have b: "live_player playing_session = Some 2 \<and> \<not> isRecording playing_session \<and>
      recording_get_media recording_ok = Reply (Some 3) \<and>
      recording_add_option recording_ok = Reply ()"
    by (simp add: playing_session_eq fresh_session_eq live_player_def recording_ok_def)
  from startRecording_spec [of "VlcPlayer_new 0" "''/tmp/out.ts''" recording_ok 2 3]
    startRecording_spec [of fresh_session "''/tmp/out.ts''"
      "\<lparr>recording_get_media = Reply None, recording_add_option = Reply ()\<rparr>" 2 3]
    startRecording_spec [of playing_session "''/tmp/out.ts''" recording_ok 2 3
      "''/tmp/other.ts''" recording_ok]
    a b
  show ?thesis by simp
qed

section \<open>Freeze detection\<close>

text \<open>
  C1: with freeze detection disabled \<open>isStreamFrozen\<close> returns false, whatever the engine
  state and the time elapsed. With it enabled, in an initialized session with a player
  handle and a clock that has not gone back, it returns true when the engine state is
  Error or Ended, and false in every other state that is not Playing; in the state
  Playing it returns true when the player's media is itself in the state Error, and
  otherwise exactly when the time since the last observation is at least the threshold,
  in seconds. A fault in one of the queries gives true.
\<close>

theorem isStreamFrozen_spec:
  "(\<not> freezeDetectionEnabled s \<longrightarrow> fst (isStreamFrozen t now r s) = False) \<and>
   (freezeDetectionEnabled s \<and> live_player s = Some mp \<and> lastFrameTime s \<le> now \<longrightarrow>
      fst (isStreamFrozen t now r s) =
        (case frozen_get_state r of
           Fault \<Rightarrow> True
         | Reply state \<Rightarrow>
             if state = libvlc_Error \<or> state = libvlc_Ended then True
             else if state \<noteq> libvlc_Playing then False
             else (case frozen_get_media r of
                     Fault \<Rightarrow> True
                   | Reply None \<Rightarrow> t * ticks_per_second \<le> now - lastFrameTime s
                   | Reply (Some m) \<Rightarrow>
                       (case frozen_media_get_state r of
                          Fault \<Rightarrow> True
                        | Reply mediaState \<Rightarrow>
                            mediaState = libvlc_Error \<or>
                            t * ticks_per_second \<le> now - lastFrameTime s))))"
  by (auto simp add: isStreamFrozen_def isStreamFrozen_try_def attempt_defs
      elapsed_seconds_ge split: option.splits reply.splits)

theorem isStreamFrozen_spec_witness:
  "freezeDetectionEnabled playing_session \<and> live_player playing_session = Some 2 \<and>
   lastFrameTime playing_session \<le> 11 * ticks_per_second \<and>
   fst (isStreamFrozen 10 (11 * ticks_per_second) steady playing_session) = True \<and>
   fst (isStreamFrozen 10 (9 * ticks_per_second) steady playing_session) = False \<and>
   fst (isStreamFrozen 10 (11 * ticks_per_second) steady fresh_session) = False"
proof -
  have h: "freezeDetectionEnabled playing_session \<and> live_player playing_session = Some 2 \<and>
      lastFrameTime playing_session \<le> 11 * ticks_per_second \<and>
      lastFrameTime playing_session \<le> 9 * ticks_per_second"
    by (simp add: playing_session_eq fresh_session_eq live_player_def ticks_per_second_def)
  have g: "\<not> freezeDetectionEnabled fresh_session"
    by (simp add: fresh_session_eq)
  from isStreamFrozen_spec [of playing_session 10 "11 * ticks_per_second" steady 2]
    isStreamFrozen_spec [of playing_session 10 "9 * ticks_per_second" steady 2]
    isStreamFrozen_spec [of fresh_session 10 "11 * ticks_per_second" steady 2] h g
  show ?thesis
    by (simp add: steady_def playing_session_eq fresh_session_eq ticks_per_second_def)
qed

text \<open>
  Five seconds after playback started, with a threshold of ten, the engine state Playing
  and the media in the state Error: the result is true, and the elapsed time is below the
  threshold.
\<close>

theorem isStreamFrozen_media_error_counterexample:
  "freezeDetectionEnabled playing_session \<and>
   frozen_get_state media_error = Reply libvlc_Playing \<and>
   \<not> (fst (isStreamFrozen 10 (5 * ticks_per_second) media_error playing_session)
        \<longleftrightarrow> 10 * ticks_per_second \<le> 5 * ticks_per_second - lastFrameTime playing_session)"
  by (simp add: playing_session_eq fresh_session_eq isStreamFrozen_def
      isStreamFrozen_try_def media_error_def live_player_def attempt_defs
      ticks_per_second_def)

section \<open>Stream statistics\<close>

text \<open>What \<open>getStats\<close> does return from the cache, and before any read has succeeded.\<close>

lemma getStats_fault_returns_cache:
  "live_player s = Some mp \<Longrightarrow> stats_get_media r = Fault \<Longrightarrow>
     fst (getStats r s) = lastStats s"
  by (simp add: getStats_def getStats_try_def Let_def attempt_defs)

lemma getStats_before_success:
  "lastStats s = StreamStats_default \<Longrightarrow>
   stats_get_media r = Reply None \<or> stats_get_stats r = Reply None \<or>
   stats_get_media r = Fault \<or> stats_get_stats r = Fault \<Longrightarrow>
     fst (getStats r s) = StreamStats_default"
  by (auto simp add: getStats_def getStats_try_def Let_def attempt_defs
      split: option.splits reply.splits)

lemma getStats_success:
  "live_player s = Some mp \<Longrightarrow> stats_get_media r = Reply (Some m) \<Longrightarrow>
   stats_get_stats r = Reply (Some v) \<Longrightarrow>
     fst (getStats r s) =
       \<lparr>inputBitrate = f_input_bitrate v, demuxBitrate = f_demux_bitrate v,
        lostBuffers = i_lost_abuffers v, displayedPictures = i_displayed_pictures v,
        lostPictures = i_lost_pictures v\<rparr> \<and>
     lastStats (snd (getStats r s)) = fst (getStats r s)"
  by (simp add: getStats_def getStats_try_def Let_def attempt_defs StreamStats_default_def)

text \<open>
  A read that finds no media, or for which the engine reports no statistics, returns
  zeros in every session, and leaves the cache as it is.
\<close>

lemma getStats_failure_returns_zeros:
  "stats_get_media r = Reply None \<or>
   (stats_get_media r = Reply (Some m) \<and> stats_get_stats r = Reply None) \<Longrightarrow>
     fst (getStats r s) = StreamStats_default \<and> lastStats (snd (getStats r s)) = lastStats s"
  by (auto simp add: getStats_def getStats_try_def Let_def attempt_defs
      split: option.splits)

text \<open>
  C2: a read succeeds in the playing session and returns a snapshot that is not all
  zero, which is cached. The next read, for which the engine reports no statistics,
  returns the all-zero snapshot and not the cached one; so does a read that finds no
  media in the player.
\<close>

theorem getStats_failed_read_returns_zeros:
  "fst (getStats stats_ok playing_session) = first_snapshot \<and>
   lastStats (snd (getStats stats_ok playing_session)) = first_snapshot \<and>
   first_snapshot \<noteq> StreamStats_default \<and>
   fst (getStats stats_none (snd (getStats stats_ok playing_session))) = StreamStats_default \<and>
   fst (getStats no_source (snd (getStats stats_ok playing_session))) = StreamStats_default"
  by (simp add: playing_session_eq fresh_session_eq getStats_def getStats_try_def Let_def
      stats_ok_def stats_none_def no_source_def first_snapshot_def StreamStats_default_def
      live_player_def attempt_defs)

section \<open>Starting playback\<close>

text \<open>What \<open>play\<close> does on success, and when a call of its \<open>try\<close> block faults.\<close>

lemma play_success:
  "fst (play url now r s) \<Longrightarrow>
     currentUrl (snd (play url now r s)) = url \<and>
     freezeDetectionEnabled (snd (play url now r s)) \<and>
     lastFrameCount (snd (play url now r s)) = 0 \<and>
     lastFrameTime (snd (play url now r s)) = now \<and>
     \<not> isInErrorState (snd (play url now r s))"
  by (auto simp add: play_def play_try_def attempt_defs
      split: option.splits reply.splits prod.splits if_splits)

lemma play_fault:
  "live_player s = Some mp \<Longrightarrow> fst (play_try url now r mp s) = Fault \<Longrightarrow>
     fst (play url now r s) = False \<and> isInError (snd (play url now r s)) = True"
  by (auto simp add: play_def isInError_def split: prod.splits reply.splits)

lemma play_fault_example:
  "fst (play_try url now (play_ok\<lparr>play_play := Fault\<rparr>) 2 fresh_session) = Fault"
  by (simp add: play_try_def play_ok_def fresh_session_eq attempt_defs)

text \<open>
  When the \<open>try\<close> block of \<open>play\<close> ends with the engine having failed and no fault,
  the error flag is as it was.
\<close>

lemma play_engine_failure:
  "fst (play_try url now r mp s) = Reply False \<Longrightarrow> live_player s = Some mp \<Longrightarrow>
     fst (play url now r s) = False \<and>
     isInErrorState (snd (play url now r s)) = isInErrorState s"
  by (auto simp add: play_def play_try_def attempt_defs
      split: option.splits reply.splits prod.splits if_splits)

text \<open>
  C3: in the initialized session, \<open>play\<close> with an engine that creates no media from the
  location returns false and leaves the error flag false; so does \<open>play\<close> with an engine
  whose play request returns -1.
\<close>

theorem play_engine_failure_leaves_error_flag:
  "live_player fresh_session = Some 2 \<and>
   isInError fresh_session = False \<and>
   fst (play ''udp://239.0.0.1:1234'' 0 play_no_media fresh_session) = False \<and>
   isInError (snd (play ''udp://239.0.0.1:1234'' 0 play_no_media fresh_session)) = False \<and>
   fst (play ''udp://239.0.0.1:1234'' 0 play_refused fresh_session) = False \<and>
   isInError (snd (play ''udp://239.0.0.1:1234'' 0 play_refused fresh_session)) = False"
  by (simp add: fresh_session_eq play_def play_try_def play_no_media_def play_refused_def
      play_ok_def isInError_def live_player_def attempt_defs)

section \<open>Invariants of the reachable states\<close>

text \<open>
  C5: in every state reached from the constructor by a sequence of operations, a player
  handle is only present in an initialized session, and only together with an engine
  instance.
\<close>

theorem session_invariant_reachable:
  "(mediaPlayer (run xs (VlcPlayer_new now)) \<noteq> None
      \<longrightarrow> initialized (run xs (VlcPlayer_new now))) \<and>
   (mediaPlayer (run xs (VlcPlayer_new now)) \<noteq> None
      \<longrightarrow> vlcInstance (run xs (VlcPlayer_new now)) \<noteq> None)"
  using run_session_inv [OF VlcPlayer_new_session_inv, of xs now]
  by (auto simp add: session_inv_def)

theorem session_invariant_reachable_witness:
  "mediaPlayer (run [Initialize 42 (Some 1) (Some 2)] (VlcPlayer_new 0)) \<noteq> None \<and>
   initialized (run [Initialize 42 (Some 1) (Some 2)] (VlcPlayer_new 0)) \<and>
   vlcInstance (run [Initialize 42 (Some 1) (Some 2)] (VlcPlayer_new 0)) \<noteq> None"
proof -
  have h: "mediaPlayer (run [Initialize 42 (Some 1) (Some 2)] (VlcPlayer_new 0)) \<noteq> None"
    by (simp add: VlcPlayer_new_def initialize_def libvlc_def)
  from session_invariant_reachable [of "[Initialize 42 (Some 1) (Some 2)]" 0] h
  show ?thesis by blast
qed

text \<open>
  After a successful \<open>initialize\<close>, a \<open>recreateMediaPlayer\<close> in which the engine creates
  no player leaves the session initialized and without a player handle.
\<close>

theorem session_invariant_counterexample:
  "\<not> (mediaPlayer
         (run [Initialize 42 (Some 1) (Some 2), RecreateMediaPlayer None] (VlcPlayer_new 0))
         \<noteq> None
       \<longleftrightarrow> initialized
         (run [Initialize 42 (Some 1) (Some 2), RecreateMediaPlayer None] (VlcPlayer_new 0)))"
  by (simp add: VlcPlayer_new_def initialize_def recreateMediaPlayer_def libvlc_def)

text \<open>
  C6: in every state reached from the constructor by a sequence of operations in which
  no recording is started to the empty path, the stored recording path is non-empty
  exactly when a recording is active.
\<close>

theorem recording_invariant_reachable:
  "\<forall>x \<in> set xs. path_given x \<Longrightarrow>
     (recordingPath (run xs (VlcPlayer_new now)) \<noteq> []
        \<longleftrightarrow> isRecording (run xs (VlcPlayer_new now)))"
  using run_recording_inv [of "VlcPlayer_new now" xs]
  by (simp add: recording_inv_def VlcPlayer_new_def)

theorem recording_invariant_reachable_witness:
  "(recordingPath
      (run [Initialize 42 (Some 1) (Some 2), Play ''udp://239.0.0.1:1234'' 0 play_ok,
            StartRecording ''/tmp/out.ts'' recording_ok] (VlcPlayer_new 0)) \<noteq> []
    \<longleftrightarrow> isRecording
      (run [Initialize 42 (Some 1) (Some 2), Play ''udp://239.0.0.1:1234'' 0 play_ok,
            StartRecording ''/tmp/out.ts'' recording_ok] (VlcPlayer_new 0))) \<and>
   isRecording
      (run [Initialize 42 (Some 1) (Some 2), Play ''udp://239.0.0.1:1234'' 0 play_ok,
            StartRecording ''/tmp/out.ts'' recording_ok] (VlcPlayer_new 0))"
proof -
  have h: "\<forall>x \<in> set [Initialize 42 (Some 1) (Some 2), Play ''udp://239.0.0.1:1234'' 0 play_ok,
      StartRecording ''/tmp/out.ts'' recording_ok]. path_given x"
    by simp
  have a: "isRecording
      (run [Initialize 42 (Some 1) (Some 2), Play ''udp://239.0.0.1:1234'' 0 play_ok,
            StartRecording ''/tmp/out.ts'' recording_ok] (VlcPlayer_new 0))"
    by (simp add: VlcPlayer_new_def initialize_def play_def play_try_def play_ok_def
        startRecording_def startRecording_try_def recording_ok_def live_player_def
        attempt_defs)
  from recording_invariant_reachable [OF h, of 0] a show ?thesis
    by blast
qed

text \<open>
  In the playing session a recording to the empty path starts: it is active, and the
  stored path is empty.
\<close>

theorem recording_invariant_counterexample:
  "\<not> (recordingPath
         (run [Initialize 42 (Some 1) (Some 2), Play ''udp://239.0.0.1:1234'' 0 play_ok,
               StartRecording [] recording_ok] (VlcPlayer_new 0)) \<noteq> []
       \<longleftrightarrow> isRecording
         (run [Initialize 42 (Some 1) (Some 2), Play ''udp://239.0.0.1:1234'' 0 play_ok,
               StartRecording [] recording_ok] (VlcPlayer_new 0)))"
  by (simp add: VlcPlayer_new_def initialize_def play_def play_try_def play_ok_def
      startRecording_def startRecording_try_def recording_ok_def live_player_def
      attempt_defs)

end
